theory Spec2Isabelle
  imports Main
begin

section \<open>Python values used by the pipeline\<close>

text \<open>
  A Python \<^verbatim>\<open>str\<close> is a sequence of Unicode code points; a code point is a natural
  number. \<open>str\<close> turns an ASCII literal into such a sequence.
\<close>

type_synonym py_str = "nat list"

abbreviation str :: "string \<Rightarrow> py_str" where
  "str s \<equiv> map of_char s"

text \<open>
  \<^verbatim>\<open>str.isspace\<close> for one code point: the characters CPython's
  \<^verbatim>\<open>_PyUnicode_IsWhitespace\<close> accepts.
\<close>

definition isspace :: "nat \<Rightarrow> bool" where
  "isspace c \<longleftrightarrow>
     (9 \<le> c \<and> c \<le> 13) \<or> (28 \<le> c \<and> c \<le> 32) \<or> c = 133 \<or> c = 160 \<or> c = 5760 \<or>
     (8192 \<le> c \<and> c \<le> 8202) \<or> c = 8232 \<or> c = 8233 \<or> c = 8239 \<or> c = 8287 \<or> c = 12288"

text \<open>\<^verbatim>\<open>text.strip()\<close>: leading and trailing whitespace removed.\<close>

definition strip :: "py_str \<Rightarrow> py_str" where
  "strip s = rev (dropWhile isspace (rev (dropWhile isspace s)))"

text \<open>\<^verbatim>\<open>sep.join(parts)\<close>.\<close>

fun py_join :: "py_str \<Rightarrow> py_str list \<Rightarrow> py_str" where
  "py_join sep [] = []"
| "py_join sep [x] = x"
| "py_join sep (x # y # ys) = x @ sep @ py_join sep (y # ys)"

text \<open>
  The exceptions the code can meet. All of them are subclasses of \<^verbatim>\<open>Exception\<close>, which
  is what every handler of the source catches; signals outside \<^verbatim>\<open>Exception\<close>
  (\<^verbatim>\<open>KeyboardInterrupt\<close>, task cancellation) are outside the model.
  \<open>ContentTypeError\<close> is a subclass of \<open>ClientResponseError\<close> in aiohttp.
\<close>

datatype exn =
    TimeoutException
  | WebDriverException
  | ClientResponseError nat
  | ContentTypeError
  | ClientConnectionError
  | AsyncTimeoutError
  | JSONDecodeError
  | KeyError
  | IndexError
  | TypeError
  | AttributeError
  | OtherException

text \<open>Sequencing of computations that may raise: the first exception wins.\<close>

definition exn_bind :: "exn + 'a \<Rightarrow> ('a \<Rightarrow> exn + 'b) \<Rightarrow> exn + 'b" where
  "exn_bind m f = (case m of Inl e \<Rightarrow> Inl e | Inr x \<Rightarrow> f x)"

text \<open>\<^verbatim>\<open>d[key]\<close> on a dict with string keys, kept as an association list.\<close>

definition dict_getitem :: "(py_str \<times> 'v) list \<Rightarrow> py_str \<Rightarrow> exn + 'v" where
  "dict_getitem d k = (case map_of d k of None \<Rightarrow> Inl KeyError | Some v \<Rightarrow> Inr v)"

section \<open>The world outside the program\<close>

text \<open>
  What one browser session does, step by step, as scrape_website uses it:
  creating the driver (\<^verbatim>\<open>ChromeDriverManager().install()\<close> and \<^verbatim>\<open>webdriver.Chrome\<close>),
  \<^verbatim>\<open>driver.get\<close>, the wait for the body element, \<^verbatim>\<open>driver.page_source\<close>, and
  \<^verbatim>\<open>driver.quit()\<close>. \<open>None\<close> means the step raised nothing.
\<close>

record browser_run =
  create_driver :: "exn option"
  driver_get :: "exn option"
  wait_body :: "exn option"
  page_source :: "exn + py_str"
  quit_driver :: "exn option"

text \<open>A parsed JSON document, as \<^verbatim>\<open>response.json()\<close> returns it.\<close>

datatype json =
    JNull
  | JBool bool
  | JNum int
  | JStr py_str
  | JArr "json list"
  | JObj "(py_str \<times> json) list"

record http_response =
  status :: nat
  body_json :: "exn + json"

text \<open>The POST request of the refinement step: headers and JSON payload.\<close>

record request =
  req_url :: py_str
  req_authorization :: py_str
  req_model :: py_str
  req_messages :: "(py_str \<times> py_str) list"
  req_max_tokens :: int

text \<open>A search hit of the provider: a dict from field names to strings.\<close>

type_synonym search_hit = "(py_str \<times> py_str) list"

text \<open>
  The collaborators of the pipeline. \<open>browser\<close> is asked with the number of scrape calls
  made before, so the same URL may render differently on a later call.
  \<open>trafilatura_extract\<close> returns the main text or None, as the library documents.
  \<open>lsa_summarizer\<close> stands for the whole body of the try block of summarize_text up to
  the list of selected sentences.
\<close>

record env =
  ddgs_text :: "py_str \<Rightarrow> int \<Rightarrow> exn + search_hit list"
  browser :: "nat \<Rightarrow> py_str \<Rightarrow> browser_run"
  trafilatura_extract :: "py_str \<Rightarrow> py_str option"
  lsa_summarizer :: "py_str \<Rightarrow> int \<Rightarrow> exn + py_str list"
  mistral_api_key :: "py_str option"
  session_post :: "request \<Rightarrow> exn + http_response"

text \<open>
  The observable effects of a run: the URLs scrape_website was called with, the browser
  drivers started, the drivers whose \<^verbatim>\<open>quit()\<close> returned, and the requests sent to the
  refinement API.
\<close>

record world =
  scrape_calls :: "py_str list"
  drivers_started :: nat
  drivers_quit :: nat
  api_requests :: "request list"

section \<open>search_module.py\<close>

text \<open>The comprehension \<^verbatim>\<open>[result['href'] for result in results]\<close>.\<close>

fun hrefs :: "search_hit list \<Rightarrow> exn + py_str list" where
  "hrefs [] = Inr []"
| "hrefs (result # results) =
     exn_bind (dict_getitem result (str ''href'')) (\<lambda>h.
     exn_bind (hrefs results) (\<lambda>hs. Inr (h # hs)))"

text \<open>
  search_urls: \<open>urls\<close> starts as the empty list and is assigned only when the whole try
  body succeeds with a non-empty result; the handler logs and leaves it as it is.
\<close>

definition search_urls :: "env \<Rightarrow> py_str \<Rightarrow> int \<Rightarrow> exn + py_str list" where
  "search_urls e query num_results =
     (let urls = [] in
      case exn_bind (ddgs_text e query num_results) (\<lambda>results.
             if results \<noteq> [] then hrefs results else Inr urls)
      of Inl _ \<Rightarrow> Inr urls
       | Inr urls' \<Rightarrow> Inr urls')"

section \<open>scraper.py\<close>

text \<open>
  scrape_website: \<open>html_content\<close> and \<open>driver\<close> start as None. When creating the driver
  raises, the handlers log, \<open>driver\<close> is still None and the finally block has nothing to
  quit. Otherwise the rest of the try body runs against the started driver; the three
  handlers (TimeoutException, WebDriverException, Exception) only log. Whichever way the
  try body ends, the finally block calls \<^verbatim>\<open>driver.quit()\<close>. That call stands outside
  every handler: when it raises, the exception leaves scrape_website.
\<close>

definition scrape_website :: "env \<Rightarrow> py_str \<Rightarrow> world \<Rightarrow> (exn + py_str option) \<times> world" where
  "scrape_website e url w =
     (let run = browser e (length (scrape_calls w)) url;
          w0 = w\<lparr>scrape_calls := scrape_calls w @ [url]\<rparr>
      in case create_driver run of
           Some _ \<Rightarrow> (Inr None, w0)
         | None \<Rightarrow>
             (let w1 = w0\<lparr>drivers_started := Suc (drivers_started w0)\<rparr>;
                  body = (case driver_get run of
                            Some x \<Rightarrow> Inl x
                          | None \<Rightarrow> (case wait_body run of
                                       Some x \<Rightarrow> Inl x
                                     | None \<Rightarrow> page_source run));
                  html_content = (case body of Inl _ \<Rightarrow> None | Inr src \<Rightarrow> Some src)
              in case quit_driver run of
                   Some x \<Rightarrow> (Inl x, w1)
                 | None \<Rightarrow> (Inr html_content, w1\<lparr>drivers_quit := Suc (drivers_quit w1)\<rparr>)))"

section \<open>main_processor.py\<close>

text \<open>
  \<^verbatim>\<open>d[k] = v\<close> on a Python dict, which keeps insertion order: an existing key keeps its
  place and gets the new value, a new key goes to the end.
\<close>

fun dict_setitem :: "('k \<times> 'v) list \<Rightarrow> 'k \<Rightarrow> 'v \<Rightarrow> ('k \<times> 'v) list" where
  "dict_setitem [] k v = [(k, v)]"
| "dict_setitem ((k', v') # d) k v =
     (if k' = k then (k', v) # d else (k', v') # dict_setitem d k v)"

type_synonym text_dict = "(py_str \<times> py_str option) list"

text \<open>
  summarize_text. The parameter is a \<open>py_str\<close>, so the isinstance test of the guard
  holds; the guard is left with the empty and the whitespace-only text.
\<close>

definition summarize_text :: "env \<Rightarrow> py_str \<Rightarrow> int \<Rightarrow> exn + py_str" where
  "summarize_text e text sentences_count =
     (if text = [] \<or> length (strip text) = 0 then Inr []
      else case exn_bind (lsa_summarizer e text sentences_count) (\<lambda>summary_sentences.
                  Inr (py_join (str '' '') summary_sentences))
           of Inr summary \<Rightarrow> Inr summary
            | Inl _ \<Rightarrow> Inr [])"

text \<open>What process_query returns: the empty dict \<^verbatim>\<open>{}\<close> or a string.\<close>

datatype retval = EmptyDict | Str py_str

text \<open>Step 2 of process_query (lines 141 to 150): the loop over the URLs.\<close>

fun process_query_fetch ::
  "env \<Rightarrow> py_str list \<Rightarrow> text_dict \<Rightarrow> world \<Rightarrow> (exn + text_dict) \<times> world" where
  "process_query_fetch e [] scraped_data w = (Inr scraped_data, w)"
| "process_query_fetch e (url # urls) scraped_data w =
     (case scrape_website e url w of
        (Inl x, w') \<Rightarrow> (Inl x, w')
      | (Inr html_content, w') \<Rightarrow>
          process_query_fetch e urls (dict_setitem scraped_data url html_content) w')"

text \<open>
  Step 3 (lines 155 to 169): the loop over \<^verbatim>\<open>scraped_data.items()\<close>. A missing or empty
  page and a missing or empty extraction are both stored as None.
\<close>

fun process_query_extract :: "env \<Rightarrow> text_dict \<Rightarrow> text_dict \<Rightarrow> text_dict" where
  "process_query_extract e [] extracted_texts = extracted_texts"
| "process_query_extract e ((url, html_content) # items) extracted_texts =
     process_query_extract e items
       (dict_setitem extracted_texts url
          (case html_content of
             None \<Rightarrow> None
           | Some h \<Rightarrow>
               if h \<noteq> [] then
                 (case trafilatura_extract e h of
                    None \<Rightarrow> None
                  | Some extracted_text \<Rightarrow>
                      if extracted_text \<noteq> [] then Some extracted_text else None)
               else None))"

text \<open>
  Step 4 (line 179): \<^verbatim>\<open>"\n\n".join(text for text in processed_content.values()
  if text and text.strip())\<close>.
\<close>

definition combined_text_of :: "text_dict \<Rightarrow> py_str" where
  "combined_text_of processed_content =
     py_join [10, 10]
       (concat (map (\<lambda>v. case v of
                          None \<Rightarrow> []
                        | Some t \<Rightarrow> if t \<noteq> [] \<and> strip t \<noteq> [] then [t] else [])
                    (map snd processed_content)))"

text \<open>The two prompts of step 5 (lines 193 to 207); code point 34 is the double quote.\<close>

definition system_prompt :: "py_str \<Rightarrow> py_str" where
  "system_prompt query =
     str ''You are an expert summarizer tasked with refining an initial summary. The provided text is the result of a web search for the query ''
     @ [34] @ query @ [34]
     @ str '' and has already been summarized once, but might contain incomplete sentences or unclear phrasing.''
     @ [10, 10]
     @ str ''Your goal is to produce a final, comprehensive, and coherent summary that directly answers the query ''
     @ [34] @ query @ [34]
     @ str '', based *only* on the information provided in the initial summary text.''
     @ [10, 10]
     @ str ''- Ensure **all key information relevant to the query** from the provided text is included. Do not omit relevant details.''
     @ [10]
     @ str ''- If parts of the initial summary are too incomplete or unclear to be accurately represented, **ignore those specific parts**. Do not add information not present in the provided text.''
     @ [10]
     @ str ''- Focus on summarizing the clear and complete information relevant to the query, ensuring the final output is well-written and flows logically.''
     @ [10]
     @ str ''- Focus only on content relevant to ''
     @ [34] @ query @ [34]
     @ str '' and ignore irrelevant details or sections.''
     @ [10]"

definition user_prompt :: "py_str \<Rightarrow> py_str \<Rightarrow> py_str" where
  "user_prompt query first_summary =
     str ''Initial Summary Text to Refine:'' @ [10] @ str ''---'' @ [10]
     @ first_summary @ [10] @ str ''---'' @ [10, 10]
     @ str ''Based on the query '' @ [34] @ query @ [34]
     @ str '', provide the refined and comprehensive summary:''"

definition mistral_api_url :: py_str where
  "mistral_api_url = str ''https://api.mistral.ai/v1/chat/completions''"

definition mistral_request :: "env \<Rightarrow> py_str \<Rightarrow> py_str \<Rightarrow> py_str \<Rightarrow> int \<Rightarrow> request" where
  "mistral_request e query first_summary mistral_model_name mistral_max_tokens =
     \<lparr> req_url = mistral_api_url,
       req_authorization =
         str ''Bearer '' @ (case mistral_api_key e of Some k \<Rightarrow> k | None \<Rightarrow> str ''None''),
       req_model = mistral_model_name,
       req_messages = [(str ''system'', system_prompt query),
                       (str ''user'', user_prompt query first_summary)],
       req_max_tokens = mistral_max_tokens \<rparr>"

text \<open>Truth value of a parsed JSON value in an \<^verbatim>\<open>if\<close>.\<close>

definition json_truthy :: "json \<Rightarrow> bool" where
  "json_truthy j =
     (case j of
        JNull \<Rightarrow> False
      | JBool b \<Rightarrow> b
      | JNum n \<Rightarrow> n \<noteq> 0
      | JStr s \<Rightarrow> s \<noteq> []
      | JArr xs \<Rightarrow> xs \<noteq> []
      | JObj kv \<Rightarrow> kv \<noteq> [])"

text \<open>\<^verbatim>\<open>j.get(key)\<close>: only a dict has the method; a missing key gives None.\<close>

definition json_get :: "json \<Rightarrow> py_str \<Rightarrow> exn + json" where
  "json_get j k =
     (case j of
        JObj kv \<Rightarrow> Inr (case map_of kv k of None \<Rightarrow> JNull | Some v \<Rightarrow> v)
      | _ \<Rightarrow> Inl AttributeError)"

text \<open>\<^verbatim>\<open>j[key]\<close> with a string key.\<close>

definition json_getitem :: "json \<Rightarrow> py_str \<Rightarrow> exn + json" where
  "json_getitem j k = (case j of JObj kv \<Rightarrow> dict_getitem kv k | _ \<Rightarrow> Inl TypeError)"

text \<open>\<^verbatim>\<open>j[0]\<close>; the keys of a JSON object are strings, so 0 is never one of them.\<close>

definition json_getitem_0 :: "json \<Rightarrow> exn + json" where
  "json_getitem_0 j =
     (case j of
        JArr xs \<Rightarrow> (case xs of [] \<Rightarrow> Inl IndexError | x # _ \<Rightarrow> Inr x)
      | JStr s \<Rightarrow> (case s of [] \<Rightarrow> Inl IndexError | c # _ \<Rightarrow> Inr (JStr [c]))
      | JObj _ \<Rightarrow> Inl KeyError
      | _ \<Rightarrow> Inl TypeError)"

text \<open>\<^verbatim>\<open>j.strip()\<close>: only a string has the method.\<close>

definition json_strip :: "json \<Rightarrow> exn + py_str" where
  "json_strip j = (case j of JStr s \<Rightarrow> Inr (strip s) | _ \<Rightarrow> Inl AttributeError)"

definition raise_for_status :: "http_response \<Rightarrow> exn + unit" where
  "raise_for_status response =
     (if 400 \<le> status response then Inl (ClientResponseError (status response)) else Inr ())"

definition is_ClientResponseError :: "exn \<Rightarrow> bool" where
  "is_ClientResponseError x =
     (case x of ClientResponseError _ \<Rightarrow> True | ContentTypeError \<Rightarrow> True | _ \<Rightarrow> False)"

text \<open>
  Lines 231 to 236: the completion read from the parsed response, or first_summary when
  the response has no choices.
\<close>

definition mistral_completion :: "json \<Rightarrow> py_str \<Rightarrow> exn + py_str" where
  "mistral_completion json_response first_summary =
     exn_bind (json_get json_response (str ''choices'')) (\<lambda>choices.
       if json_truthy choices then
         exn_bind (json_getitem json_response (str ''choices'')) (\<lambda>cs.
         exn_bind (json_getitem_0 cs) (\<lambda>c.
         exn_bind (json_getitem c (str ''message'')) (\<lambda>m.
         exn_bind (json_getitem m (str ''content'')) (\<lambda>content.
         json_strip content))))
       else Inr first_summary)"

text \<open>The try body of step 5 (lines 226 to 236): the value assigned to final_summary.\<close>

definition mistral_try ::
  "env \<Rightarrow> py_str \<Rightarrow> py_str \<Rightarrow> py_str \<Rightarrow> int \<Rightarrow> exn + py_str" where
  "mistral_try e query first_summary mistral_model_name mistral_max_tokens =
     exn_bind (session_post e
                 (mistral_request e query first_summary mistral_model_name mistral_max_tokens))
       (\<lambda>response.
     exn_bind (raise_for_status response) (\<lambda>_.
     exn_bind (body_json response) (\<lambda>json_response.
     mistral_completion json_response first_summary)))"

text \<open>
  Step 5 (lines 189 to 256). Both handlers set final_summary to first_summary; in the
  first one, reading the error body is itself wrapped in a try that ignores every
  exception.
\<close>

definition process_query_refine ::
  "env \<Rightarrow> py_str \<Rightarrow> py_str \<Rightarrow> py_str \<Rightarrow> int \<Rightarrow> world \<Rightarrow> (exn + py_str) \<times> world" where
  "process_query_refine e query first_summary mistral_model_name mistral_max_tokens w =
     (if first_summary \<noteq> [] \<and>
         (case mistral_api_key e of None \<Rightarrow> False | Some k \<Rightarrow> k \<noteq> []) then
        (let w' = w\<lparr>api_requests := api_requests w @
                     [mistral_request e query first_summary mistral_model_name
                        mistral_max_tokens]\<rparr>
         in case mistral_try e query first_summary mistral_model_name mistral_max_tokens of
              Inr final_summary \<Rightarrow> (Inr final_summary, w')
            | Inl x \<Rightarrow>
                if is_ClientResponseError x then (Inr first_summary, w')
                else (Inr first_summary, w'))
      else if first_summary = [] then (Inr [], w)
      else (Inr first_summary, w))"

definition process_query ::
  "env \<Rightarrow> py_str \<Rightarrow> int \<Rightarrow> int \<Rightarrow> py_str \<Rightarrow> int \<Rightarrow> world \<Rightarrow> (exn + retval) \<times> world" where
  "process_query e query num_results summary_sentences mistral_model_name mistral_max_tokens w =
     (case search_urls e query num_results of
        Inl x \<Rightarrow> (Inl x, w)
      | Inr urls \<Rightarrow>
          if urls = [] then (Inr EmptyDict, w)
          else
            (case process_query_fetch e urls [] w of
               (Inl x, w1) \<Rightarrow> (Inl x, w1)
             | (Inr scraped_data, w1) \<Rightarrow>
                 (let extracted_texts = process_query_extract e scraped_data [];
                      processed_content = extracted_texts;
                      combined_text = combined_text_of processed_content
                  in if combined_text = [] then (Inr (Str []), w1)
                     else
                       (case summarize_text e combined_text summary_sentences of
                          Inl x \<Rightarrow> (Inl x, w1)
                        | Inr first_summary \<Rightarrow>
                            (case process_query_refine e query first_summary
                                    mistral_model_name mistral_max_tokens w1 of
                               (Inl x, w2) \<Rightarrow> (Inl x, w2)
                             | (Inr final_summary, w2) \<Rightarrow> (Inr (Str final_summary), w2))))))"

text \<open>
  The values of the local variables scraped_data, extracted_texts and combined_text of a
  run of process_query; None when the run returns before the variable is assigned.
\<close>

definition run_scraped_data :: "env \<Rightarrow> py_str \<Rightarrow> int \<Rightarrow> world \<Rightarrow> text_dict option" where
  "run_scraped_data e query num_results w =
     (case search_urls e query num_results of
        Inl _ \<Rightarrow> None
      | Inr urls \<Rightarrow>
          if urls = [] then None
          else (case fst (process_query_fetch e urls [] w) of
                  Inl _ \<Rightarrow> None
                | Inr scraped_data \<Rightarrow> Some scraped_data))"

definition run_extracted_texts :: "env \<Rightarrow> py_str \<Rightarrow> int \<Rightarrow> world \<Rightarrow> text_dict option" where
  "run_extracted_texts e query num_results w =
     map_option (\<lambda>scraped_data. process_query_extract e scraped_data [])
       (run_scraped_data e query num_results w)"

definition run_combined_text :: "env \<Rightarrow> py_str \<Rightarrow> int \<Rightarrow> world \<Rightarrow> py_str option" where
  "run_combined_text e query num_results w =
     map_option combined_text_of (run_extracted_texts e query num_results w)"

section \<open>The claims in the words of the specification\<close>

text \<open>
  The response format of the refinement API, \<^verbatim>\<open>{choices:[{message:{content}}]}\<close>: a
  response has a usable completion when it is an object whose field choices is an array,
  whose first element is an object with a field message, itself an object with a field
  content that is a string.
\<close>

definition json_field :: "json \<Rightarrow> py_str \<Rightarrow> json option" where
  "json_field j k = (case j of JObj kv \<Rightarrow> map_of kv k | _ \<Rightarrow> None)"

definition json_first :: "json \<Rightarrow> json option" where
  "json_first j = (case j of JArr xs \<Rightarrow> (case xs of [] \<Rightarrow> None | x # _ \<Rightarrow> Some x) | _ \<Rightarrow> None)"

definition json_is_string :: "json \<Rightarrow> bool" where
  "json_is_string j = (case j of JStr _ \<Rightarrow> True | _ \<Rightarrow> False)"

definition usable_completion :: "json \<Rightarrow> bool" where
  "usable_completion j =
     (case json_field j (str ''choices'') of
        None \<Rightarrow> False
      | Some cs \<Rightarrow>
          (case json_first cs of
             None \<Rightarrow> False
           | Some c \<Rightarrow>
               (case json_field c (str ''message'') of
                  None \<Rightarrow> False
                | Some m \<Rightarrow>
                    (case json_field m (str ''content'') of
                       None \<Rightarrow> False
                     | Some content \<Rightarrow> json_is_string content))))"

text \<open>
  Refinement is skipped or fails: the credential is absent (unset or empty), the call
  raises (transport error, timeout), the status is an HTTP error, the body does not
  parse, or the response has no usable completion.
\<close>

definition refinement_unavailable :: "env \<Rightarrow> request \<Rightarrow> bool" where
  "refinement_unavailable e req \<longleftrightarrow>
     mistral_api_key e = None \<or> mistral_api_key e = Some [] \<or>
     (case session_post e req of
        Inl _ \<Rightarrow> True
      | Inr response \<Rightarrow>
          400 \<le> status response \<or>
          (case body_json response of Inl _ \<Rightarrow> True | Inr j \<Rightarrow> \<not> usable_completion j))"

text \<open>The texts of a dict of extraction outcomes, failures (None) left out.\<close>

definition extracted_texts_of :: "text_dict \<Rightarrow> py_str list" where
  "extracted_texts_of d = concat (map (\<lambda>(url, v). case v of None \<Rightarrow> [] | Some t \<Rightarrow> [t]) d)"

text \<open>The corpus as the specification words it: the join of all non-empty extracted texts.\<close>

definition corpus_of_nonempty_texts :: "text_dict \<Rightarrow> py_str" where
  "corpus_of_nonempty_texts d = py_join [10, 10] (filter (\<lambda>t. t \<noteq> []) (extracted_texts_of d))"

text \<open>The join of the extracted texts that have a character other than whitespace.\<close>

definition corpus_of_nonblank_texts :: "text_dict \<Rightarrow> py_str" where
  "corpus_of_nonblank_texts d =
     py_join [10, 10] (filter (\<lambda>t. \<not> list_all isspace t) (extracted_texts_of d))"


section \<open>Example runs\<close>

definition example_world :: world where
  "example_world =
     \<lparr> scrape_calls = [], drivers_started = 0, drivers_quit = 0, api_requests = [] \<rparr>"

definition example_url :: py_str where
  "example_url = str ''http://a.example/''"

definition example_page :: py_str where
  "example_page = str ''<html><body><p>Cabbage is a vegetable.</p></body></html>''"

definition example_text :: py_str where
  "example_text = str ''Cabbage is a vegetable.''"

text \<open>
  One search hit, a page that renders, an extraction and a summarizer that succeed, no
  credential, and a refinement API that cannot be reached.
\<close>

definition example_env :: env where
  "example_env =
     \<lparr> ddgs_text = (\<lambda>query num_results.
          Inr [[(str ''title'', str ''Cabbage''), (str ''href'', example_url)]]),
       browser = (\<lambda>i url.
          \<lparr> create_driver = None, driver_get = None, wait_body = None,
            page_source = Inr example_page, quit_driver = None \<rparr>),
       trafilatura_extract = (\<lambda>html. Some example_text),
       lsa_summarizer = (\<lambda>text n. Inr [example_text]),
       mistral_api_key = None,
       session_post = (\<lambda>req. Inl ClientConnectionError) \<rparr>"

text \<open>A browser session in which the wait for the page body times out.\<close>

definition timeout_run :: browser_run where
  "timeout_run =
     \<lparr> create_driver = None, driver_get = None, wait_body = Some TimeoutException,
       page_source = Inr example_page, quit_driver = None \<rparr>"

text \<open>
  A browser session in which the wait for the page body times out and quitting the driver
  raises as well, as with a browser that has stopped answering.
\<close>

definition quit_raises_run :: browser_run where
  "quit_raises_run =
     \<lparr> create_driver = None, driver_get = None, wait_body = Some TimeoutException,
       page_source = Inr example_page, quit_driver = Some WebDriverException \<rparr>"

text \<open>
  Two search hits. The second page renders, but its extraction is whitespace only.
\<close>

definition example_url_b :: py_str where
  "example_url_b = str ''http://b.example/''"

definition example_page_b :: py_str where
  "example_page_b = str ''<html><body><pre> </pre></body></html>''"

definition example_env_two :: env where
  "example_env_two =
     example_env
       \<lparr> ddgs_text := (\<lambda>query num_results.
            Inr [[(str ''href'', example_url)], [(str ''href'', example_url_b)]]),
         browser := (\<lambda>i url.
            \<lparr> create_driver = None, driver_get = None, wait_body = None,
              page_source = Inr (if url = example_url_b then example_page_b else example_page),
              quit_driver = None \<rparr>),
         trafilatura_extract := (\<lambda>html.
            if html = example_page_b then Some [32, 10] else Some example_text) \<rparr>"

text \<open>Two search hits with the same URL.\<close>

definition example_env_dup :: env where
  "example_env_dup =
     example_env
       \<lparr> ddgs_text := (\<lambda>query num_results.
            Inr [[(str ''href'', example_url)], [(str ''href'', example_url)]]) \<rparr>"

text \<open>A credential is set, and the refinement API answers with status 503 and no JSON.\<close>

definition http_error_env :: env where
  "http_error_env =
     example_env
       \<lparr> mistral_api_key := Some (str ''key''),
         session_post := (\<lambda>req. Inr \<lparr> status = 503, body_json = Inl ContentTypeError \<rparr>) \<rparr>"

section \<open>Helper lemmas\<close>

lemma exn_bind_simps:
  "exn_bind (Inl x) f = Inl x" "exn_bind (Inr a) f = f a"
  by (simp_all add: exn_bind_def)

text \<open>\<^verbatim>\<open>text.strip()\<close> is empty exactly for a text of whitespace only (the empty one too).\<close>

lemma strip_eq_Nil_iff: "strip t = [] \<longleftrightarrow> list_all isspace t"
proof
  assume blank: "list_all isspace t"
  then have rest: "dropWhile isspace t = []"
    by (simp add: list_all_iff)
  show "strip t = []"
    unfolding strip_def rest by simp
next
  assume "strip t = []"
  then have all_rest: "\<forall>c \<in> set (dropWhile isspace t). isspace c"
    by (simp add: strip_def)
  show "list_all isspace t"
  proof (cases "dropWhile isspace t = []")
    case True
    then show ?thesis by (simp add: list_all_iff)
  next
    case False
    then have "\<not> isspace (hd (dropWhile isspace t))"
      by (rule hd_dropWhile)
    moreover from False have "hd (dropWhile isspace t) \<in> set (dropWhile isspace t)"
      by simp
    ultimately show ?thesis using all_rest by blast
  qed
qed

lemmas example_defs = example_env_two_def example_env_dup_def example_env_def example_world_def
  example_url_def example_url_b_def example_page_def example_page_b_def example_text_def

lemmas run_defs = run_combined_text_def run_extracted_texts_def run_scraped_data_def
  search_urls_def exn_bind_simps dict_getitem_def scrape_website_def Let_def

text \<open>
  scrape_website appends its URL to the call log and sends no API request. It raises
  exactly when the driver was created and quitting it raises; then the exception is the
  one of \<^verbatim>\<open>driver.quit()\<close>.
\<close>

lemma scrape_website_api_requests:
  "api_requests (snd (scrape_website e url w)) = api_requests w"
  by (simp add: scrape_website_def Let_def split: option.splits sum.splits)


lemma scrape_website_raises_iff:
  "fst (scrape_website e url w) = Inl x \<longleftrightarrow>
     create_driver (browser e (length (scrape_calls w)) url) = None \<and>
     quit_driver (browser e (length (scrape_calls w)) url) = Some x"
  by (auto simp: scrape_website_def Let_def split: option.splits sum.splits)


text \<open>
  When \<^verbatim>\<open>driver.quit()\<close> raises nothing (or no driver was created), scrape_website
  raises nothing, every driver it started has been quit, a failure of any step of the
  try body gives None, and a run without failure gives the page source.
\<close>

lemma scrape_website_when_quit_returns:
  assumes "create_driver (browser e (length (scrape_calls w)) url) \<noteq> None \<or>
           quit_driver (browser e (length (scrape_calls w)) url) = None"
  shows "(\<exists>html_content. fst (scrape_website e url w) = Inr html_content) \<and>
   drivers_quit (snd (scrape_website e url w)) + drivers_started w =
     drivers_started (snd (scrape_website e url w)) + drivers_quit w \<and>
   (create_driver (browser e (length (scrape_calls w)) url) = None \<longrightarrow>
      drivers_started (snd (scrape_website e url w)) = Suc (drivers_started w) \<and>
      drivers_quit (snd (scrape_website e url w)) = Suc (drivers_quit w)) \<and>
   (create_driver (browser e (length (scrape_calls w)) url) \<noteq> None \<longrightarrow>
      drivers_started (snd (scrape_website e url w)) = drivers_started w \<and>
      drivers_quit (snd (scrape_website e url w)) = drivers_quit w) \<and>
   (create_driver (browser e (length (scrape_calls w)) url) \<noteq> None \<or>
    driver_get (browser e (length (scrape_calls w)) url) \<noteq> None \<or>
    wait_body (browser e (length (scrape_calls w)) url) \<noteq> None \<or>
    (\<exists>x. page_source (browser e (length (scrape_calls w)) url) = Inl x) \<longrightarrow>
      fst (scrape_website e url w) = Inr None) \<and>
   (\<forall>src. create_driver (browser e (length (scrape_calls w)) url) = None \<and>
      driver_get (browser e (length (scrape_calls w)) url) = None \<and>
      wait_body (browser e (length (scrape_calls w)) url) = None \<and>
      page_source (browser e (length (scrape_calls w)) url) = Inr src \<longrightarrow>
      fst (scrape_website e url w) = Inr (Some src))"
  using assms by (auto simp: scrape_website_def Let_def split: option.splits sum.splits)

lemma process_query_fetch_api_requests:
  "api_requests (snd (process_query_fetch e urls acc w)) = api_requests w"
proof (induction urls arbitrary: acc w)
  case Nil
  then show ?case by simp
next
  case (Cons url urls)
  obtain r w' where step: "scrape_website e url w = (r, w')"
    by (cases "scrape_website e url w")
  have same: "api_requests w' = api_requests w"
    using scrape_website_api_requests [of e url w] step by simp
  show ?case
  proof (cases r)
    case (Inl x)
    with step same show ?thesis by simp
  next
    case (Inr h)
    with Cons.IH [of "dict_setitem acc url h" w'] step same show ?thesis by simp
  qed
qed









text \<open>The corpus of the code is the join of the texts that are not blank.\<close>

lemma combined_text_of_nonblank: "combined_text_of d = corpus_of_nonblank_texts d"
proof -
  have "concat (map (\<lambda>v. case v of None \<Rightarrow> []
                        | Some t \<Rightarrow> if t \<noteq> [] \<and> strip t \<noteq> [] then [t] else [])
                    (map snd d))
        = filter (\<lambda>t. \<not> list_all isspace t) (extracted_texts_of d)"
    by (induction d) (auto simp: extracted_texts_of_def strip_eq_Nil_iff split: option.splits)
  then show ?thesis
    by (simp add: combined_text_of_def corpus_of_nonblank_texts_def)
qed

text \<open>
  A run that builds a corpus: what process_query returns, from the corpus on. The fetch
  stage before it sends no API request.
\<close>

lemma process_query_from_corpus:
  assumes "run_combined_text e query num_results w = Some c"
  shows "\<exists>w1. api_requests w1 = api_requests w \<and>
     process_query e query num_results summary_sentences mistral_model_name
       mistral_max_tokens w =
     (if c = [] then (Inr (Str []), w1)
      else case summarize_text e c summary_sentences of
             Inl x \<Rightarrow> (Inl x, w1)
           | Inr first_summary \<Rightarrow>
               (case process_query_refine e query first_summary mistral_model_name
                       mistral_max_tokens w1 of
                  (Inl x, w2) \<Rightarrow> (Inl x, w2)
                | (Inr final_summary, w2) \<Rightarrow> (Inr (Str final_summary), w2)))"
proof -
  from assms obtain urls where urls: "search_urls e query num_results = Inr urls" "urls \<noteq> []"
    by (auto simp: run_combined_text_def run_extracted_texts_def run_scraped_data_def
        split: sum.splits if_splits)
  obtain r w1 where fetch: "process_query_fetch e urls [] w = (r, w1)"
    by (cases "process_query_fetch e urls [] w")
  with assms urls obtain sd where sd: "r = Inr sd"
    and c: "c = combined_text_of (process_query_extract e sd [])"
    by (auto simp: run_combined_text_def run_extracted_texts_def run_scraped_data_def
        split: sum.splits)
  have "api_requests w1 = api_requests w"
    using process_query_fetch_api_requests [of e urls "[]" w] fetch by simp
  moreover have "process_query e query num_results summary_sentences mistral_model_name
       mistral_max_tokens w =
     (if c = [] then (Inr (Str []), w1)
      else case summarize_text e c summary_sentences of
             Inl x \<Rightarrow> (Inl x, w1)
           | Inr first_summary \<Rightarrow>
               (case process_query_refine e query first_summary mistral_model_name
                       mistral_max_tokens w1 of
                  (Inl x, w2) \<Rightarrow> (Inl x, w2)
                | (Inr final_summary, w2) \<Rightarrow> (Inr (Str final_summary), w2)))"
    using urls fetch sd c by (simp add: process_query_def Let_def)
  ultimately show ?thesis by blast
qed

text \<open>Reading a completion out of the parsed response.\<close>

lemma json_strip_Inr: "json_strip content = Inr s \<Longrightarrow> json_is_string content"
  by (cases content) (simp_all add: json_strip_def json_is_string_def)

lemma json_getitem_Inr: "json_getitem j k = Inr v \<Longrightarrow> json_field j k = Some v"
  by (cases j)
    (simp_all add: json_getitem_def json_field_def dict_getitem_def split: option.splits)

lemma json_getitem_0_Inr:
  "json_getitem_0 cs = Inr c \<Longrightarrow> json_first cs = Some c \<or> (\<exists>s. c = JStr s)"
  by (cases cs) (auto simp: json_getitem_0_def json_first_def split: list.splits)

lemma json_field_JStr: "json_field (JStr s) k = None"
  by (simp add: json_field_def)

lemma choice_content_Inr:
  assumes "exn_bind (json_getitem c (str ''message'')) (\<lambda>m.
           exn_bind (json_getitem m (str ''content'')) (\<lambda>content.
           json_strip content)) = Inr s"
  shows "\<exists>m content. json_field c (str ''message'') = Some m \<and>
           json_field m (str ''content'') = Some content \<and> json_is_string content"
proof -
  from assms obtain m where m: "json_getitem c (str ''message'') = Inr m"
    and rest: "exn_bind (json_getitem m (str ''content'')) (\<lambda>content.
           json_strip content) = Inr s"
    by (cases "json_getitem c (str ''message'')") (simp_all add: exn_bind_simps)
  from rest obtain content where content: "json_getitem m (str ''content'') = Inr content"
    and stripped: "json_strip content = Inr s"
    by (cases "json_getitem m (str ''content'')") (simp_all add: exn_bind_simps)
  from json_getitem_Inr [OF m] json_getitem_Inr [OF content] json_strip_Inr [OF stripped]
  show ?thesis by blast
qed

lemma mistral_completion_fallback:
  assumes "\<not> usable_completion j"
  shows "mistral_completion j fs = Inr fs \<or> (\<exists>x. mistral_completion j fs = Inl x)"
proof (cases "mistral_completion j fs")
  case (Inl x)
  then show ?thesis by simp
next
  case (Inr s)
  then obtain choices where get: "json_get j (str ''choices'') = Inr choices"
    by (cases "json_get j (str ''choices'')")
      (simp_all add: mistral_completion_def exn_bind_simps)
  show ?thesis
  proof (cases "json_truthy choices")
    case False
    with Inr get show ?thesis by (simp add: mistral_completion_def exn_bind_simps)
  next
    case True
    with Inr get have chain: "exn_bind (json_getitem j (str ''choices'')) (\<lambda>cs.
         exn_bind (json_getitem_0 cs) (\<lambda>c.
         exn_bind (json_getitem c (str ''message'')) (\<lambda>m.
         exn_bind (json_getitem m (str ''content'')) (\<lambda>content.
         json_strip content)))) = Inr s"
      by (simp add: mistral_completion_def exn_bind_simps)
    then obtain cs where cs: "json_getitem j (str ''choices'') = Inr cs"
      and chain1: "exn_bind (json_getitem_0 cs) (\<lambda>c.
         exn_bind (json_getitem c (str ''message'')) (\<lambda>m.
         exn_bind (json_getitem m (str ''content'')) (\<lambda>content.
         json_strip content))) = Inr s"
      by (cases "json_getitem j (str ''choices'')") (simp_all add: exn_bind_simps)
    from chain1 obtain c where c: "json_getitem_0 cs = Inr c"
      and chain2: "exn_bind (json_getitem c (str ''message'')) (\<lambda>m.
         exn_bind (json_getitem m (str ''content'')) (\<lambda>content.
         json_strip content)) = Inr s"
      by (cases "json_getitem_0 cs") (simp_all add: exn_bind_simps)
    from choice_content_Inr [OF chain2] obtain m content
      where shape: "json_field c (str ''message'') = Some m"
        "json_field m (str ''content'') = Some content" "json_is_string content"
      by blast
    from json_getitem_0_Inr [OF c] shape(1) have "json_first cs = Some c"
      by (auto simp: json_field_JStr)
    with json_getitem_Inr [OF cs] shape have "usable_completion j"
      by (simp add: usable_completion_def)
    with assms show ?thesis by simp
  qed
qed

lemma mistral_completion_usable:
  assumes "usable_completion j"
  shows "\<exists>t. mistral_completion j fs = Inr (strip t)"
proof -
  from assms obtain cs where cs: "json_field j (str ''choices'') = Some cs"
    by (cases "json_field j (str ''choices'')") (simp_all add: usable_completion_def)
  with assms obtain c where c: "json_first cs = Some c"
    by (cases "json_first cs") (simp_all add: usable_completion_def)
  with assms cs obtain m where m: "json_field c (str ''message'') = Some m"
    by (cases "json_field c (str ''message'')") (simp_all add: usable_completion_def)
  with assms cs c obtain content where content: "json_field m (str ''content'') = Some content"
    and string: "json_is_string content"
    by (cases "json_field m (str ''content'')") (simp_all add: usable_completion_def)
  from string obtain t where t: "content = JStr t"
    by (cases content) (simp_all add: json_is_string_def)
  from cs obtain kv where j: "j = JObj kv" "map_of kv (str ''choices'') = Some cs"
    by (cases j) (simp_all add: json_field_def)
  from c obtain rest where arr: "cs = JArr (c # rest)"
    by (cases cs) (simp_all add: json_first_def split: list.splits)
  from m obtain ckv where ckv: "c = JObj ckv" "map_of ckv (str ''message'') = Some m"
    by (cases c) (simp_all add: json_field_def)
  from content obtain mkv where mkv: "m = JObj mkv" "map_of mkv (str ''content'') = Some content"
    by (cases m) (simp_all add: json_field_def)
  have "mistral_completion j fs = Inr (strip t)"
    using j arr ckv mkv t
    by (simp add: mistral_completion_def json_get_def json_truthy_def json_getitem_def
        json_getitem_0_def json_strip_def dict_getitem_def exn_bind_simps)
  then show ?thesis by blast
qed

lemma process_query_refine_fallback:
  assumes "refinement_unavailable e
     (mistral_request e query first_summary mistral_model_name mistral_max_tokens)"
  shows "fst (process_query_refine e query first_summary mistral_model_name
           mistral_max_tokens w) = Inr first_summary"
proof (cases "first_summary \<noteq> [] \<and>
    (case mistral_api_key e of None \<Rightarrow> False | Some k \<Rightarrow> k \<noteq> [])")
  case False
  then show ?thesis by (auto simp: process_query_refine_def)
next
  case True
  then have key: "mistral_api_key e \<noteq> None" "mistral_api_key e \<noteq> Some []"
    by (auto split: option.splits)
  have "mistral_try e query first_summary mistral_model_name mistral_max_tokens
          = Inr first_summary \<or>
        (\<exists>x. mistral_try e query first_summary mistral_model_name mistral_max_tokens = Inl x)"
  proof (cases "session_post e
      (mistral_request e query first_summary mistral_model_name mistral_max_tokens)")
    case (Inl x)
    then show ?thesis by (simp add: mistral_try_def exn_bind_simps)
  next
    case (Inr response)
    show ?thesis
    proof (cases "400 \<le> status response")
      case True
      with Inr show ?thesis
        by (simp add: mistral_try_def raise_for_status_def exn_bind_simps)
    next
      case False
      show ?thesis
      proof (cases "body_json response")
        case (Inl x)
        with Inr False show ?thesis
          by (simp add: mistral_try_def raise_for_status_def exn_bind_simps)
      next
        case body: (Inr j)
        with assms key Inr False have "\<not> usable_completion j"
          by (simp add: refinement_unavailable_def)
        from mistral_completion_fallback [OF this, of first_summary] Inr False body
        show ?thesis
          by (simp add: mistral_try_def raise_for_status_def exn_bind_simps)
      qed
    qed
  qed
  with True show ?thesis
    by (auto simp: process_query_refine_def Let_def)
qed

text \<open>
  What process_query gives back: the empty dict when the search gives no URL, the
  exception of \<^verbatim>\<open>driver.quit()\<close> when the fetch loop is cut short by one, and a string
  on every other path.
\<close>

lemma search_urls_Inr: "\<exists>urls. search_urls e query num_results = Inr urls"
  by (simp add: search_urls_def split: sum.splits)

lemma summarize_text_Inr: "\<exists>summary. summarize_text e text sentences_count = Inr summary"
  by (simp add: summarize_text_def split: sum.splits)

lemma process_query_refine_Inr:
  "\<exists>final_summary w'. process_query_refine e query first_summary mistral_model_name
      mistral_max_tokens w = (Inr final_summary, w')"
  by (simp add: process_query_refine_def Let_def split: sum.splits)

lemma process_query_returns:
  "(search_urls e query num_results = Inr [] \<and>
    fst (process_query e query num_results summary_sentences mistral_model_name
           mistral_max_tokens w) = Inr EmptyDict) \<or>
   (\<exists>s. fst (process_query e query num_results summary_sentences mistral_model_name
           mistral_max_tokens w) = Inr (Str s)) \<or>
   (\<exists>urls x. search_urls e query num_results = Inr urls \<and>
      fst (process_query_fetch e urls [] w) = Inl x \<and>
      fst (process_query e query num_results summary_sentences mistral_model_name
           mistral_max_tokens w) = Inl x)"
proof -
  obtain urls where urls: "search_urls e query num_results = Inr urls"
    using search_urls_Inr by blast
  obtain r w1 where fetch: "process_query_fetch e urls [] w = (r, w1)"
    by (cases "process_query_fetch e urls [] w")
  show ?thesis
  proof (cases "urls = []")
    case True
    with urls show ?thesis by (simp add: process_query_def)
  next
    case False
    show ?thesis
    proof (cases r)
      case (Inl x)
      with urls False fetch show ?thesis by (simp add: process_query_def)
    next
      case (Inr sd)
      obtain first_summary where summary:
        "summarize_text e (combined_text_of (process_query_extract e sd [])) summary_sentences
           = Inr first_summary"
        using summarize_text_Inr by blast
      obtain final_summary w2 where
        "process_query_refine e query first_summary mistral_model_name mistral_max_tokens w1
           = (Inr final_summary, w2)"
        using process_query_refine_Inr by blast
      with urls False fetch Inr summary show ?thesis
        by (simp add: process_query_def Let_def)
    qed
  qed
qed

section \<open>The search resolver\<close>

text \<open>
  C6. search_urls never raises: it always returns a list of URLs. When the provider
  raises, or a hit has no href field, the list is empty. An empty list makes
  process_query return at once, with no scrape call, no driver and no API request.
\<close>

theorem search_urls_never_raises:
  "(\<exists>urls. search_urls e query num_results = Inr urls) \<and>
   (\<forall>x. ddgs_text e query num_results = Inl x \<longrightarrow> search_urls e query num_results = Inr []) \<and>
   (\<forall>results x. ddgs_text e query num_results = Inr results \<and> hrefs results = Inl x \<longrightarrow>
      search_urls e query num_results = Inr []) \<and>
   (search_urls e query num_results = Inr [] \<longrightarrow>
      snd (process_query e query num_results summary_sentences mistral_model_name
             mistral_max_tokens w) = w)"
  by (auto simp: search_urls_def process_query_def exn_bind_simps split: sum.splits)

theorem search_urls_never_raises_witness:
  "ddgs_text (example_env\<lparr>ddgs_text := (\<lambda>q n. Inl OtherException)\<rparr>) (str ''cabbage'') 5
     = Inl OtherException \<and>
   search_urls (example_env\<lparr>ddgs_text := (\<lambda>q n. Inl OtherException)\<rparr>) (str ''cabbage'') 5
     = Inr []"
  using search_urls_never_raises
    [of "example_env\<lparr>ddgs_text := (\<lambda>q n. Inl OtherException)\<rparr>" "str ''cabbage''" 5]
  by simp

section \<open>The primary summarizer\<close>

text \<open>
  C7. summarize_text returns the empty string for an empty or whitespace-only text, and
  when the summarization machinery raises; it never raises itself.
\<close>

theorem summarize_text_guard:
  "(text = [] \<or> list_all isspace text \<longrightarrow> summarize_text e text sentences_count = Inr []) \<and>
   (\<forall>x. lsa_summarizer e text sentences_count = Inl x \<longrightarrow>
      summarize_text e text sentences_count = Inr []) \<and>
   (\<exists>summary. summarize_text e text sentences_count = Inr summary)"
  by (auto simp: summarize_text_def strip_eq_Nil_iff exn_bind_simps split: sum.splits)

theorem summarize_text_guard_witness:
  "list_all isspace [32, 10, 9] \<and>
   summarize_text example_env [32, 10, 9] 50 = Inr [] \<and>
   lsa_summarizer (example_env\<lparr>lsa_summarizer := (\<lambda>text n. Inl OtherException)\<rparr>)
     example_text 50 = Inl OtherException \<and>
   summarize_text (example_env\<lparr>lsa_summarizer := (\<lambda>text n. Inl OtherException)\<rparr>)
     example_text 50 = Inr []"
  using summarize_text_guard [of "[32, 10, 9]" example_env 50]
    summarize_text_guard
      [of example_text "example_env\<lparr>lsa_summarizer := (\<lambda>text n. Inl OtherException)\<rparr>" 50]
  by (simp add: isspace_def)

section \<open>The content fetcher\<close>

text \<open>
  C8. The claim asks that timeout and execution errors come back as None and are never
  raised to the caller, with the driver released on every exit path. The code calls
  \<^verbatim>\<open>driver.quit()\<close> in the finally block, outside its three handlers (lines 88 to 90):
  when that call raises, the exception leaves scrape_website, against the docstring
  (the page source, or None if an error occurs), and so leaves process_query, which
  calls scrape_website without a try (line 145). In the run below the wait for the page
  body times out and quitting the driver raises: the caller gets the exception, not
  None, and the started driver has not been quit.
\<close>

theorem scrape_website_quit_raises:
  "wait_body (browser (example_env\<lparr>browser := (\<lambda>i url. quit_raises_run)\<rparr>)
      (length (scrape_calls example_world)) example_url) = Some TimeoutException \<and>
   quit_driver (browser (example_env\<lparr>browser := (\<lambda>i url. quit_raises_run)\<rparr>)
      (length (scrape_calls example_world)) example_url) = Some WebDriverException \<and>
   fst (scrape_website (example_env\<lparr>browser := (\<lambda>i url. quit_raises_run)\<rparr>)
      example_url example_world) = Inl WebDriverException \<and>
   drivers_started (snd (scrape_website (example_env\<lparr>browser := (\<lambda>i url. quit_raises_run)\<rparr>)
      example_url example_world)) = 1 \<and>
   drivers_quit (snd (scrape_website (example_env\<lparr>browser := (\<lambda>i url. quit_raises_run)\<rparr>)
      example_url example_world)) = 0 \<and>
   fst (process_query (example_env\<lparr>browser := (\<lambda>i url. quit_raises_run)\<rparr>)
      (str ''cabbage'') 5 50 (str ''mistral-small-latest'') 150 example_world)
     = Inl WebDriverException"
  by (simp add: process_query_def run_defs example_defs quit_raises_run_def)

section \<open>The orchestrator: fetch and extraction outcomes\<close>




section \<open>The orchestrator: the corpus\<close>

text \<open>
  C4, as amended. In every run that reaches extraction, the corpus is the double-newline
  join of the extracted texts that have a character other than whitespace, in the order
  of the extraction outcomes; no joined text is empty; and this corpus is what
  process_query passes to summarize_text (when it is not empty; otherwise the run
  returns the empty string at once).
\<close>

theorem corpus_is_join_of_nonblank_texts:
  assumes "run_extracted_texts e query num_results w = Some ex"
  shows "run_combined_text e query num_results w = Some (corpus_of_nonblank_texts ex) \<and>
   (\<forall>t \<in> set (filter (\<lambda>t. \<not> list_all isspace t) (extracted_texts_of ex)). t \<noteq> []) \<and>
   (\<exists>w1. process_query e query num_results summary_sentences mistral_model_name
            mistral_max_tokens w =
      (if corpus_of_nonblank_texts ex = [] then (Inr (Str []), w1)
       else case summarize_text e (corpus_of_nonblank_texts ex) summary_sentences of
              Inl x \<Rightarrow> (Inl x, w1)
            | Inr first_summary \<Rightarrow>
                (case process_query_refine e query first_summary mistral_model_name
                        mistral_max_tokens w1 of
                   (Inl x, w2) \<Rightarrow> (Inl x, w2)
                 | (Inr final_summary, w2) \<Rightarrow> (Inr (Str final_summary), w2))))"
proof -
  have corpus: "run_combined_text e query num_results w = Some (corpus_of_nonblank_texts ex)"
    using assms by (simp add: run_combined_text_def combined_text_of_nonblank)
  have pieces: "\<forall>t \<in> set (filter (\<lambda>t. \<not> list_all isspace t) (extracted_texts_of ex)). t \<noteq> []"
    by auto
  show ?thesis
    using corpus pieces
      process_query_from_corpus
        [OF corpus, of summary_sentences mistral_model_name mistral_max_tokens]
    by blast
qed

text \<open>
  The claim as stated fails on an extraction that is whitespace only: it is a non-empty
  extracted text, and the corpus leaves it out.
\<close>

theorem corpus_of_nonempty_texts_counterexample:
  "run_extracted_texts example_env_two (str ''cabbage'') 5 example_world =
     Some [(example_url, Some example_text), (example_url_b, Some [32, 10])] \<and>
   run_combined_text example_env_two (str ''cabbage'') 5 example_world = Some example_text \<and>
   corpus_of_nonempty_texts [(example_url, Some example_text), (example_url_b, Some [32, 10])]
     = example_text @ [10, 10, 32, 10] \<and>
   example_text @ [10, 10, 32, 10] \<noteq> example_text"
  by (simp add: run_defs example_defs combined_text_of_def strip_def isspace_def
      corpus_of_nonempty_texts_def extracted_texts_of_def)

theorem corpus_is_join_of_nonblank_texts_witness:
  "run_extracted_texts example_env_two (str ''cabbage'') 5 example_world =
     Some [(example_url, Some example_text), (example_url_b, Some [32, 10])] \<and>
   corpus_of_nonblank_texts [(example_url, Some example_text), (example_url_b, Some [32, 10])]
     = example_text \<and>
   run_combined_text example_env_two (str ''cabbage'') 5 example_world = Some example_text"
proof -
  have ex: "run_extracted_texts example_env_two (str ''cabbage'') 5 example_world =
     Some [(example_url, Some example_text), (example_url_b, Some [32, 10])]"
    by (simp add: run_defs example_defs)
  have join: "corpus_of_nonblank_texts
      [(example_url, Some example_text), (example_url_b, Some [32, 10])] = example_text"
    by (simp add: corpus_of_nonblank_texts_def extracted_texts_of_def isspace_def
        example_text_def)
  show ?thesis
    using ex join corpus_is_join_of_nonblank_texts [OF ex, of 50 "[]" 150]
    by simp
qed

text \<open>
  C10. When an extraction outcome of a run is a non-empty text of whitespace only, the
  corpus of the run is the corpus of the other outcomes: the text contributes neither
  characters nor a separator.
\<close>

theorem whitespace_only_text_omitted:
  "run_extracted_texts e query num_results w = Some (xs @ (u, Some t) # ys) \<Longrightarrow>
   t \<noteq> [] \<Longrightarrow> list_all isspace t \<Longrightarrow>
   run_combined_text e query num_results w = Some (combined_text_of (xs @ ys))"
  by (simp add: run_combined_text_def combined_text_of_def strip_eq_Nil_iff)

theorem whitespace_only_text_omitted_witness:
  "run_extracted_texts example_env_two (str ''cabbage'') 5 example_world =
     Some ([(example_url, Some example_text)] @ (example_url_b, Some [32, 10]) # []) \<and>
   [32, 10] \<noteq> ([] :: py_str) \<and> list_all isspace [32, 10] \<and>
   combined_text_of ([(example_url, Some example_text)] @ []) = example_text \<and>
   run_combined_text example_env_two (str ''cabbage'') 5 example_world = Some example_text"
proof -
  have ex: "run_extracted_texts example_env_two (str ''cabbage'') 5 example_world =
     Some ([(example_url, Some example_text)] @ (example_url_b, Some [32, 10]) # [])"
    by (simp add: run_defs example_defs)
  have blank: "[32, 10] \<noteq> ([] :: py_str)" "list_all isspace [32, 10]"
    by (simp_all add: isspace_def)
  have rest: "combined_text_of ([(example_url, Some example_text)] @ []) = example_text"
    by (simp add: combined_text_of_def strip_def isspace_def example_text_def)
  show ?thesis
    using ex blank rest whitespace_only_text_omitted [OF ex blank]
    by simp
qed

text \<open>
  C5. In every run whose corpus is empty, process_query returns the empty string, the
  primary summarizer gives the empty string for that corpus, and no request is sent to
  the refinement API.
\<close>

theorem empty_corpus_short_circuit:
  assumes "run_combined_text e query num_results w = Some []"
  shows "fst (process_query e query num_results summary_sentences mistral_model_name
          mistral_max_tokens w) = Inr (Str []) \<and>
   summarize_text e [] summary_sentences = Inr [] \<and>
   api_requests (snd (process_query e query num_results summary_sentences mistral_model_name
          mistral_max_tokens w)) = api_requests w"
proof -
  obtain w1 where "api_requests w1 = api_requests w"
    and "process_query e query num_results summary_sentences mistral_model_name
       mistral_max_tokens w = (Inr (Str []), w1)"
    using process_query_from_corpus
      [OF assms, of summary_sentences mistral_model_name mistral_max_tokens]
    by auto
  then show ?thesis by (simp add: summarize_text_def)
qed

theorem empty_corpus_short_circuit_witness:
  "run_combined_text (example_env\<lparr>trafilatura_extract := (\<lambda>html. None),
        mistral_api_key := Some (str ''key'')\<rparr>) (str ''cabbage'') 5 example_world = Some [] \<and>
   fst (process_query (example_env\<lparr>trafilatura_extract := (\<lambda>html. None),
        mistral_api_key := Some (str ''key'')\<rparr>) (str ''cabbage'') 5 50
        (str ''mistral-small-latest'') 150 example_world) = Inr (Str []) \<and>
   api_requests (snd (process_query (example_env\<lparr>trafilatura_extract := (\<lambda>html. None),
        mistral_api_key := Some (str ''key'')\<rparr>) (str ''cabbage'') 5 50
        (str ''mistral-small-latest'') 150 example_world)) = []"
proof -
  have corpus: "run_combined_text (example_env\<lparr>trafilatura_extract := (\<lambda>html. None),
        mistral_api_key := Some (str ''key'')\<rparr>) (str ''cabbage'') 5 example_world = Some []"
    by (simp add: run_defs example_defs combined_text_of_def)
  show ?thesis
    using corpus empty_corpus_short_circuit [OF corpus, of 50 "str ''mistral-small-latest''" 150]
    by (simp add: example_world_def)
qed

section \<open>The orchestrator: no search results\<close>

text \<open>
  C1. The claim asks for the empty string when the search gives no URL. The code returns
  the empty dict \<^verbatim>\<open>{}\<close> there (line 138), against its own docstring, which promises a
  string. The run below has a provider that answers with no hit.
\<close>

theorem process_query_no_urls_returns_dict:
  "search_urls (example_env\<lparr>ddgs_text := (\<lambda>q n. Inr [])\<rparr>) (str ''cabbage'') 5 = Inr [] \<and>
   fst (process_query (example_env\<lparr>ddgs_text := (\<lambda>q n. Inr [])\<rparr>) (str ''cabbage'') 5 50
        (str ''mistral-small-latest'') 150 example_world) = Inr EmptyDict \<and>
   Inr EmptyDict \<noteq> (Inr (Str []) :: exn + retval)"
  by (simp add: process_query_def search_urls_def exn_bind_simps)

section \<open>The orchestrator: refinement\<close>

text \<open>
  C2. In every run that builds a corpus, when refinement is skipped or fails (no
  credential, the call raises, an HTTP error status, a body that does not parse, or a
  response without a usable completion), process_query raises nothing and returns the
  primary summary, that is, what summarize_text gives for the corpus, unchanged.
\<close>

theorem refinement_fallback:
  assumes "run_combined_text e query num_results w = Some corpus"
    and "summarize_text e corpus summary_sentences = Inr first_summary"
    and "refinement_unavailable e
       (mistral_request e query first_summary mistral_model_name mistral_max_tokens)"
  shows "fst (process_query e query num_results summary_sentences mistral_model_name
           mistral_max_tokens w) = Inr (Str first_summary)"
proof -
  obtain w1 where run: "process_query e query num_results summary_sentences mistral_model_name
       mistral_max_tokens w =
     (if corpus = [] then (Inr (Str []), w1)
      else case summarize_text e corpus summary_sentences of
             Inl x \<Rightarrow> (Inl x, w1)
           | Inr first_summary \<Rightarrow>
               (case process_query_refine e query first_summary mistral_model_name
                       mistral_max_tokens w1 of
                  (Inl x, w2) \<Rightarrow> (Inl x, w2)
                | (Inr final_summary, w2) \<Rightarrow> (Inr (Str final_summary), w2)))"
    using process_query_from_corpus
      [OF assms(1), of summary_sentences mistral_model_name mistral_max_tokens]
    by blast
  show ?thesis
  proof (cases "corpus = []")
    case True
    with assms(2) have "first_summary = []"
      by (simp add: summarize_text_def)
    with True run show ?thesis by simp
  next
    case False
    obtain r w2 where refine: "process_query_refine e query first_summary mistral_model_name
        mistral_max_tokens w1 = (r, w2)"
      by (cases "process_query_refine e query first_summary mistral_model_name
        mistral_max_tokens w1")
    with process_query_refine_fallback [OF assms(3), of w1] have "r = Inr first_summary"
      by simp
    with False run assms(2) refine show ?thesis by simp
  qed
qed

theorem refinement_fallback_witness:
  "run_combined_text http_error_env (str ''cabbage'') 5 example_world = Some example_text \<and>
   summarize_text http_error_env example_text 50 = Inr example_text \<and>
   refinement_unavailable http_error_env
     (mistral_request http_error_env (str ''cabbage'') example_text
        (str ''mistral-small-latest'') 150) \<and>
   fst (process_query http_error_env (str ''cabbage'') 5 50 (str ''mistral-small-latest'') 150
     example_world) = Inr (Str example_text)"
proof -
  have corpus: "run_combined_text http_error_env (str ''cabbage'') 5 example_world
      = Some example_text"
    by (simp add: run_defs example_defs http_error_env_def combined_text_of_def strip_def
        isspace_def)
  have summary: "summarize_text http_error_env example_text 50 = Inr example_text"
    by (simp add: summarize_text_def http_error_env_def example_env_def exn_bind_simps
        example_text_def strip_def isspace_def)
  have unavailable: "refinement_unavailable http_error_env
     (mistral_request http_error_env (str ''cabbage'') example_text
        (str ''mistral-small-latest'') 150)"
    by (simp add: refinement_unavailable_def http_error_env_def)
  from refinement_fallback [OF corpus summary unavailable] corpus summary unavailable
  show ?thesis by (simp only: simp_thms)
qed

end
